theory Spec2Isabelle
  imports Main
begin

section \<open>JavaScript values\<close>

text \<open>
  The values that cross the HTTP boundary are JSON values, plus JavaScript's
  \<^verbatim>\<open>undefined\<close>. Numbers are modelled as integers (page numbers, counts and status
  codes are integers; floating point values are outside the model).
\<close>

datatype jsval =
    Undefined
  | Null
  | Bool bool
  | Num int
  | Str string
  | Arr "jsval list"
  | Obj "(string \<times> jsval) list"

text \<open>The truthiness test of \<^verbatim>\<open>if (v)\<close>, \<^verbatim>\<open>!!v\<close> and \<^verbatim>\<open>a || b\<close>.\<close>

fun truthy :: "jsval \<Rightarrow> bool" where
  "truthy Undefined = False"
| "truthy Null = False"
| "truthy (Bool b) = b"
| "truthy (Num n) = (n \<noteq> 0)"
| "truthy (Str s) = (s \<noteq> [])"
| "truthy (Arr xs) = True"
| "truthy (Obj fs) = True"

text \<open>\<^verbatim>\<open>a || b\<close>: the left operand when it is truthy, else the right one.\<close>

definition js_or :: "jsval \<Rightarrow> jsval \<Rightarrow> jsval" where
  "js_or a b = (if truthy a then a else b)"

definition nullish :: "jsval \<Rightarrow> bool" where
  "nullish v = (v = Undefined \<or> v = Null)"

subsection \<open>Responses and errors\<close>

text \<open>
  An HTTP response as axios hands it to the interceptors: \<^verbatim>\<open>status\<close>, and
  \<^verbatim>\<open>data\<close>, the parsed body (the field \<open>body\<close> here, since \<open>data\<close> is also the
  name of the hooks' state variable). The error object that a failed call rejects
  with: \<^verbatim>\<open>error.response\<close> is present when the server answered, \<^verbatim>\<open>error.request\<close>
  is truthy when a request was sent, \<^verbatim>\<open>error.message\<close> is the transport's message.
\<close>

record response =
  status :: int
  body :: jsval

record error =
  response :: "response option"
  request :: bool
  message :: jsval

text \<open>
  Reading a property of \<^verbatim>\<open>null\<close> or \<^verbatim>\<open>undefined\<close> raises a TypeError; the
  text of its message is the engine's.
\<close>

definition TypeError :: "jsval \<Rightarrow> string \<Rightarrow> error" where
  "TypeError v k =
     \<lparr> response = None, request = False,
       message = Str (''Cannot read properties of ''
                      @ (if v = Null then ''null'' else ''undefined'')
                      @ '' (reading '' @ [CHR 0x27] @ k @ [CHR 0x27] @ '')'') \<rparr>"

text \<open>
  \<^verbatim>\<open>v.k\<close> for the property names the sources read (\<^verbatim>\<open>message\<close>, \<^verbatim>\<open>token\<close>,
  \<^verbatim>\<open>user\<close>, \<^verbatim>\<open>data\<close>, \<^verbatim>\<open>totalPages\<close>, \<^verbatim>\<open>totalItems\<close>, \<^verbatim>\<open>total\<close>): the
  field of an object, \<^verbatim>\<open>undefined\<close> on any other value that is not nullish.
\<close>

fun get_prop :: "jsval \<Rightarrow> string \<Rightarrow> error + jsval" where
  "get_prop Undefined k = Inl (TypeError Undefined k)"
| "get_prop Null k = Inl (TypeError Null k)"
| "get_prop (Obj fs) k = Inr (case map_of fs k of None \<Rightarrow> Undefined | Some v \<Rightarrow> v)"
| "get_prop v k = Inr Undefined"

text \<open>\<^verbatim>\<open>v?.k\<close>: \<^verbatim>\<open>undefined\<close> when \<^verbatim>\<open>v\<close> is nullish, never an error.\<close>

fun get_prop_opt :: "jsval \<Rightarrow> string \<Rightarrow> jsval" where
  "get_prop_opt (Obj fs) k = (case map_of fs k of None \<Rightarrow> Undefined | Some v \<Rightarrow> v)"
| "get_prop_opt v k = Undefined"

section \<open>The browser environment\<close>

text \<open>
  \<^verbatim>\<open>localStorage\<close> maps keys to strings; \<open>navigations\<close> records every assignment
  to \<^verbatim>\<open>window.location.href\<close>, in order; \<open>console\<close> records the argument lists of
  \<^verbatim>\<open>console.error\<close>.
\<close>

record browser =
  localStorage :: "string \<rightharpoonup> string"
  navigations :: "string list"
  console :: "jsval list list"

definition getItem :: "string \<Rightarrow> browser \<Rightarrow> string option" where
  "getItem k b = localStorage b k"

definition removeItem :: "string \<Rightarrow> browser \<Rightarrow> browser" where
  "removeItem k b = b\<lparr>localStorage := (localStorage b)(k := None)\<rparr>"

definition console_error :: "jsval list \<Rightarrow> browser \<Rightarrow> browser" where
  "console_error args b = b\<lparr>console := console b @ [args]\<rparr>"

definition set_location_href :: "string \<Rightarrow> browser \<Rightarrow> browser" where
  "set_location_href url b = b\<lparr>navigations := navigations b @ [url]\<rparr>"

section \<open>Api.js: the interceptors\<close>

text \<open>
  A request descriptor: its headers, and whatever else it carries (the \<open>more\<close> part
  of the record: url, method, body).
\<close>

record config =
  headers :: "string \<rightharpoonup> string"

text \<open>
  The request interceptor. \<^verbatim>\<open>localStorage.getItem\<close> returns \<^verbatim>\<open>null\<close> for a
  missing key; \<^verbatim>\<open>if (token)\<close> is false for \<^verbatim>\<open>null\<close> and for the empty string.
\<close>

definition request_fulfilled :: "browser \<Rightarrow> 'a config_scheme \<Rightarrow> 'a config_scheme" where
  "request_fulfilled b cfg =
     (case getItem ''token'' b of
        None \<Rightarrow> cfg
      | Some token \<Rightarrow>
          if token \<noteq> [] then cfg\<lparr>headers := (headers cfg)(''Authorization'' \<mapsto> ''Bearer '' @ token)\<rparr>
          else cfg)"

definition request_rejected :: "error \<Rightarrow> error + 'a" where
  "request_rejected err = Inl err"


definition status_label :: "int \<Rightarrow> string" where
  "status_label st =
     (if st = 403 then ''Access forbidden:''
      else if st = 404 then ''Resource not found:''
      else if st = 500 then ''Server error:''
      else ''API Error:'')"

definition response_rejected :: "browser \<Rightarrow> error \<Rightarrow> browser \<times> (error + response)" where
  "response_rejected b err =
     (case response err of
        Some r \<Rightarrow>
          if status r = 401 then
            (set_location_href ''/login'' (removeItem ''user'' (removeItem ''token'' b)), Inl err)
          else
            (case get_prop (body r) ''message'' of
               Inl thrown \<Rightarrow> (b, Inl thrown)
             | Inr m \<Rightarrow> (console_error [Str (status_label (status r)), m] b, Inl err))
      | None \<Rightarrow>
          if request err then
            (console_error [Str ''No response from server. Please check your connection.''] b, Inl err)
          else
            (console_error [Str ''Error:'', message err] b, Inl err))"

section \<open>ApiService.js: the session\<close>

text \<open>
  \<^verbatim>\<open>localStorage.setItem(k, v)\<close> stores the string that \<^verbatim>\<open>v\<close> converts to
  (JavaScript's ToString): a string is stored as it is, an integer in decimal
  (JavaScript prints numbers from \<open>10\<^sup>2\<^sup>1\<close> on with an exponent; they are outside
  the model), an array as its elements joined by commas.
\<close>

fun show_nat :: "nat \<Rightarrow> string" where
  "show_nat n =
     (if n < 10 then [''0123456789'' ! n]
      else show_nat (n div 10) @ [''0123456789'' ! (n mod 10)])"

fun join :: "string \<Rightarrow> string list \<Rightarrow> string" where
  "join sep [] = []"
| "join sep [x] = x"
| "join sep (x # y # ys) = x @ sep @ join sep (y # ys)"

fun to_string :: "jsval \<Rightarrow> string" where
  "to_string Undefined = ''undefined''"
| "to_string Null = ''null''"
| "to_string (Bool b) = (if b then ''true'' else ''false'')"
| "to_string (Num n) = (if n < 0 then ''-'' @ show_nat (nat (- n)) else show_nat (nat n))"
| "to_string (Str s) = s"
| "to_string (Arr xs) =
     join '','' (map (\<lambda>x. if x = Undefined \<or> x = Null then [] else to_string x) xs)"
| "to_string (Obj fs) = ''[object Object]''"

definition setItem :: "string \<Rightarrow> jsval \<Rightarrow> browser \<Rightarrow> browser" where
  "setItem k v b = b\<lparr>localStorage := (localStorage b)(k \<mapsto> to_string v)\<rparr>"

text \<open>
  \<^verbatim>\<open>authService.login\<close>, from the point where \<^verbatim>\<open>api.post\<close> has settled with
  \<open>posted\<close>. \<open>JSON_stringify\<close> is the platform's serialiser (a string, or
  \<^verbatim>\<open>undefined\<close> for \<^verbatim>\<open>undefined\<close>). A rejected post is not caught; reading
  \<^verbatim>\<open>response.data.token\<close> of a \<^verbatim>\<open>null\<close> body throws.
\<close>

definition login ::
  "(jsval \<Rightarrow> jsval) \<Rightarrow> browser \<Rightarrow> error + response \<Rightarrow> browser \<times> (error + jsval)" where
  "login JSON_stringify b posted =
     (case posted of
        Inl err \<Rightarrow> (b, Inl err)
      | Inr r \<Rightarrow>
          (case get_prop (body r) ''token'' of
             Inl thrown \<Rightarrow> (b, Inl thrown)
           | Inr token \<Rightarrow>
               if truthy token then
                 (case get_prop (body r) ''user'' of
                    Inl thrown \<Rightarrow> (setItem ''token'' token b, Inl thrown)
                  | Inr user \<Rightarrow>
                      (setItem ''user'' (JSON_stringify user) (setItem ''token'' token b),
                       Inr (body r)))
               else (b, Inr (body r))))"

definition logout :: "browser \<Rightarrow> browser" where
  "logout b = removeItem ''user'' (removeItem ''token'' b)"

definition isAuthenticated :: "browser \<Rightarrow> bool" where
  "isAuthenticated b = (case getItem ''token'' b of None \<Rightarrow> False | Some t \<Rightarrow> t \<noteq> [])"

section \<open>The hooks: useApi\<close>

text \<open>
  The state of \<^verbatim>\<open>useApi\<close> is its three \<^verbatim>\<open>useState\<close> variables. The bound
  operation is opaque: a call of it settles, later, with a value or with a rejection.
  What it rejects with (what \<^verbatim>\<open>catch (err)\<close> receives) is an error object, as the
  pipeline and every \<^verbatim>\<open>throw\<close> of a TypeError produce, or any other JavaScript
  value, \<^verbatim>\<open>null\<close> and \<^verbatim>\<open>undefined\<close> included.
\<close>

record api_state =
  data :: jsval
  loading :: bool
  error :: jsval

datatype thrown = Err error | Val jsval

datatype settled = Resolved jsval | Rejected thrown

definition nullish_thrown :: "thrown \<Rightarrow> bool" where
  "nullish_thrown err = (case err of Err e \<Rightarrow> False | Val v \<Rightarrow> nullish v)"

definition useApi :: "bool \<Rightarrow> api_state" where
  "useApi callOnMount = \<lparr> data = Null, loading = callOnMount, error = Null \<rparr>"

text \<open>
  \<^verbatim>\<open>err.response?.data?.message\<close>. The read of \<^verbatim>\<open>err.response\<close> is not guarded:
  it throws when \<^verbatim>\<open>err\<close> is \<^verbatim>\<open>null\<close> or \<^verbatim>\<open>undefined\<close>. After it, the chain
  cannot throw.
\<close>

definition response_message :: "error \<Rightarrow> jsval" where
  "response_message err =
     (case response err of None \<Rightarrow> Undefined | Some r \<Rightarrow> get_prop_opt (body r) ''message'')"

definition thrown_response_message :: "thrown \<Rightarrow> error + jsval" where
  "thrown_response_message err =
     (case err of
        Err e \<Rightarrow> Inr (response_message e)
      | Val v \<Rightarrow>
          (case get_prop v ''response'' of
             Inl te \<Rightarrow> Inl te
           | Inr r \<Rightarrow> Inr (get_prop_opt (get_prop_opt r ''data'') ''message'')))"

text \<open>\<^verbatim>\<open>err.message\<close>, read only after \<^verbatim>\<open>err.response\<close> has been read.\<close>

definition thrown_message :: "thrown \<Rightarrow> jsval" where
  "thrown_message err = (case err of Err e \<Rightarrow> message e | Val v \<Rightarrow> get_prop_opt v ''message'')"

text \<open>
  \<^verbatim>\<open>err.response?.data?.message || err.message || 'An error occurred'\<close>: the
  message, or the TypeError that evaluating the expression throws.
\<close>

definition errorMessage :: "thrown \<Rightarrow> error + jsval" where
  "errorMessage err =
     (case thrown_response_message err of
        Inl te \<Rightarrow> Inl te
      | Inr m \<Rightarrow> Inr (js_or (js_or m (thrown_message err)) (Str ''An error occurred'')))"

text \<open>
  \<^verbatim>\<open>execute\<close> runs up to the \<^verbatim>\<open>await\<close> (\<open>execute_begin\<close>), and resumes when the
  operation settles (\<open>execute_settle\<close>): the \<^verbatim>\<open>try\<close> or the \<^verbatim>\<open>catch\<close> branch,
  then \<^verbatim>\<open>finally\<close>. The second component is what the promise returned by
  \<^verbatim>\<open>execute\<close> settles with. When the \<^verbatim>\<open>catch\<close> branch itself throws, before
  \<^verbatim>\<open>setError\<close>, the promise rejects with what it threw.
\<close>

definition execute_begin :: "api_state \<Rightarrow> api_state" where
  "execute_begin s = s\<lparr>loading := True, error := Null\<rparr>"

definition execute_settle :: "settled \<Rightarrow> api_state \<Rightarrow> api_state \<times> (thrown + jsval)" where
  "execute_settle outcome s =
     (case outcome of
        Resolved result \<Rightarrow> (s\<lparr>data := result, loading := False\<rparr>, Inr result)
      | Rejected err \<Rightarrow>
          (case errorMessage err of
             Inl te \<Rightarrow> (s\<lparr>loading := False\<rparr>, Inl (Err te))
           | Inr m \<Rightarrow> (s\<lparr>error := m, loading := False\<rparr>, Inl err)))"

text \<open>One call of \<^verbatim>\<open>execute\<close> with nothing else happening while it is in flight.\<close>

definition execute :: "settled \<Rightarrow> api_state \<Rightarrow> api_state \<times> (thrown + jsval)" where
  "execute outcome s = execute_settle outcome (execute_begin s)"

section \<open>The hooks: usePaginatedApi\<close>

text \<open>
  A call of the bound operation: which function was called (the identity of the
  \<^verbatim>\<open>apiFunction\<close> argument of the render that made the call) and its argument
  \<^verbatim>\<open>{page, limit}\<close>.
\<close>

record call =
  callee :: nat
  arg_page :: int
  arg_limit :: int

text \<open>
  The six \<^verbatim>\<open>useState\<close> variables, the arguments \<^verbatim>\<open>apiFunction\<close> and
  \<^verbatim>\<open>pageSize\<close> of the latest render, and three observers: the calls of the bound
  operation made so far, how many of them are in flight, how many have settled.
\<close>

record paginated_state = api_state +
  page :: int
  totalPages :: int
  totalItems :: int
  apiFunction :: nat
  pageSize :: int
  calls :: "call list"
  pending :: nat
  completed :: nat

text \<open>
  The numeric fields of a result are numbers when present (the contract on the bound
  operation); \<open>as_number\<close> reads any other value as 0, and such results are outside
  what the model describes. On numbers, \<^verbatim>\<open>x || 0\<close> is \<^verbatim>\<open>x\<close>.
\<close>

definition as_number :: "jsval \<Rightarrow> int" where
  "as_number v = (case v of Num n \<Rightarrow> n | _ \<Rightarrow> 0)"

text \<open>The state of the first render.\<close>

definition usePaginatedApi :: "nat \<Rightarrow> int \<Rightarrow> int \<Rightarrow> paginated_state" where
  "usePaginatedApi f initialPage psize =
     \<lparr> data = Arr [], loading = False, error = Null,
       page = initialPage, totalPages = 0, totalItems = 0,
       apiFunction = f, pageSize = psize, calls = [], pending = 0, completed = 0 \<rparr>"

text \<open>\<^verbatim>\<open>fetchData(pageNum)\<close> up to its \<^verbatim>\<open>await\<close>: the call is issued.\<close>

definition fetchData_begin :: "int \<Rightarrow> paginated_state \<Rightarrow> paginated_state" where
  "fetchData_begin pageNum s =
     s\<lparr>loading := True, error := Null,
       calls := calls s @ [\<lparr> callee = apiFunction s, arg_page = pageNum, arg_limit = pageSize s \<rparr>],
       pending := pending s + 1\<rparr>"

text \<open>
  The \<^verbatim>\<open>catch\<close> branch of \<^verbatim>\<open>fetchData\<close>: the error is stored, not thrown again.
  Evaluating \<^verbatim>\<open>err.response?.data?.message\<close> throws when \<^verbatim>\<open>err\<close> is \<^verbatim>\<open>null\<close> or
  \<^verbatim>\<open>undefined\<close>; then nothing is stored (\<open>Inl\<close>).
\<close>

definition fetchData_catch :: "thrown \<Rightarrow> paginated_state \<Rightarrow> error + paginated_state" where
  "fetchData_catch err s =
     (case thrown_response_message err of
        Inl te \<Rightarrow> Inl te
      | Inr m \<Rightarrow> Inr (s\<lparr>error := js_or m (Str ''Failed to fetch data'')\<rparr>))"

text \<open>
  The \<^verbatim>\<open>try\<close> branch after the \<^verbatim>\<open>await\<close>: three setters in order, each reading
  properties of \<^verbatim>\<open>result\<close>. The state after the setters that ran, and what a read
  threw, if one did.
\<close>

definition fetchData_try :: "jsval \<Rightarrow> paginated_state \<Rightarrow> paginated_state \<times> thrown option" where
  "fetchData_try result s =
     (case get_prop result ''data'' of
        Inl te \<Rightarrow> (s, Some (Err te))
      | Inr d \<Rightarrow>
          let s1 = s\<lparr>data := js_or d result\<rparr> in
          (case get_prop result ''totalPages'' of
             Inl te \<Rightarrow> (s1, Some (Err te))
           | Inr tp \<Rightarrow>
               let s2 = s1\<lparr>totalPages := as_number (js_or tp (Num 0))\<rparr> in
               (case get_prop result ''totalItems'' of
                  Inl te \<Rightarrow> (s2, Some (Err te))
                | Inr ti \<Rightarrow>
                    (case get_prop result ''total'' of
                       Inl te \<Rightarrow> (s2, Some (Err te))
                     | Inr t \<Rightarrow>
                         (s2\<lparr>totalItems := as_number (js_or (js_or ti t) (Num 0))\<rparr>, None)))))"

text \<open>
  \<^verbatim>\<open>fetchData\<close> from its \<^verbatim>\<open>await\<close> on, when the call settles: \<^verbatim>\<open>try\<close>, then
  \<^verbatim>\<open>catch\<close> on what the operation rejected with or the \<^verbatim>\<open>try\<close> branch threw, then
  \<^verbatim>\<open>finally\<close>. The promise of \<^verbatim>\<open>fetchData\<close> resolves with \<^verbatim>\<open>undefined\<close>, unless
  the \<^verbatim>\<open>catch\<close> branch itself throws: then it rejects with that.
\<close>

definition fetchData_settle ::
  "settled \<Rightarrow> paginated_state \<Rightarrow> paginated_state \<times> (thrown + jsval)" where
  "fetchData_settle outcome s =
     (let (s1, raised) = (case outcome of
                            Resolved result \<Rightarrow> fetchData_try result s
                          | Rejected err \<Rightarrow> (s, Some err));
          (s2, settles) = (case raised of
                             None \<Rightarrow> (s1, Inr Undefined)
                           | Some err \<Rightarrow>
                               (case fetchData_catch err s1 of
                                  Inl te \<Rightarrow> (s1, Inl (Err te))
                                | Inr s' \<Rightarrow> (s', Inr Undefined)))
      in (s2\<lparr>loading := False, pending := pending s - 1, completed := completed s + 1\<rparr>,
          settles))"

text \<open>
  The effect \<^verbatim>\<open>useEffect(() => fetchData(page), [page, fetchData])\<close>. It runs after
  the first render, and after a later render when a dependency has changed;
  \<^verbatim>\<open>fetchData\<close> is a new function exactly when one of \<^verbatim>\<open>apiFunction\<close>,
  \<^verbatim>\<open>page\<close>, \<^verbatim>\<open>pageSize\<close> has changed.
\<close>

definition deps :: "paginated_state \<Rightarrow> int \<times> nat \<times> int" where
  "deps s = (page s, apiFunction s, pageSize s)"

definition mount :: "paginated_state \<Rightarrow> paginated_state" where
  "mount s = fetchData_begin (page s) s"

definition run_effect :: "paginated_state \<Rightarrow> paginated_state \<Rightarrow> paginated_state" where
  "run_effect prev s = (if deps s \<noteq> deps prev then fetchData_begin (page s) s else s)"

text \<open>The navigation actions, as the state updates they request.\<close>

definition nextPage :: "paginated_state \<Rightarrow> paginated_state" where
  "nextPage s = (if page s < totalPages s then s\<lparr>page := page s + 1\<rparr> else s)"

definition prevPage :: "paginated_state \<Rightarrow> paginated_state" where
  "prevPage s = (if page s > 1 then s\<lparr>page := page s - 1\<rparr> else s)"

definition goToPage :: "int \<Rightarrow> paginated_state \<Rightarrow> paginated_state" where
  "goToPage pageNum s =
     (if pageNum \<ge> 1 \<and> pageNum \<le> totalPages s then s\<lparr>page := pageNum\<rparr> else s)"

text \<open>\<^verbatim>\<open>refetch\<close> is \<^verbatim>\<open>fetchData\<close>, whose parameter defaults to the current page.\<close>

definition refetch :: "int option \<Rightarrow> paginated_state \<Rightarrow> paginated_state" where
  "refetch pageNum s = fetchData_begin (case pageNum of None \<Rightarrow> page s | Some n \<Rightarrow> n) s"

text \<open>
  What can happen to a mounted hook: one of its actions is called, a call in flight
  settles, or the component renders again with the arguments \<^verbatim>\<open>apiFunction\<close> and
  \<^verbatim>\<open>pageSize\<close> given. Here each event is handled against the latest render and
  followed by the next render and its effect: a handler that calls one action. The
  handlers that call several actions before the next render are \<open>Handler\<close> below.
\<close>

datatype event =
    NextPage
  | PrevPage
  | GoToPage int
  | Refetch "int option"
  | Settle settled
  | Rerender nat int

fun handle :: "event \<Rightarrow> paginated_state \<Rightarrow> paginated_state" where
  "handle NextPage s = nextPage s"
| "handle PrevPage s = prevPage s"
| "handle (GoToPage n) s = goToPage n s"
| "handle (Refetch n) s = refetch n s"
| "handle (Settle outcome) s = (if pending s = 0 then s else fst (fetchData_settle outcome s))"
| "handle (Rerender f psize) s = s\<lparr>apiFunction := f, pageSize := psize\<rparr>"

definition step :: "event \<Rightarrow> paginated_state \<Rightarrow> paginated_state" where
  "step ev s = run_effect s (handle ev s)"

definition run :: "nat \<Rightarrow> int \<Rightarrow> int \<Rightarrow> event list \<Rightarrow> paginated_state" where
  "run f initialPage psize evs =
     foldl (\<lambda>s ev. step ev s) (mount (usePaginatedApi f initialPage psize)) evs"

text \<open>
  Runs in general. A handler may call several actions before the component renders
  again, and the functions it calls are those that some render \<open>r\<close> returned, the
  latest or an earlier one that the caller has kept. Their guards test the
  \<^verbatim>\<open>page\<close> and \<^verbatim>\<open>totalPages\<close> of that render, and \<^verbatim>\<open>fetchData\<close> has its
  \<^verbatim>\<open>apiFunction\<close>, \<^verbatim>\<open>pageSize\<close> and default \<^verbatim>\<open>page\<close>; but
  \<^verbatim>\<open>setPage(prev => prev + 1)\<close> and \<^verbatim>\<open>setPage(prev => prev - 1)\<close> update the page
  as queued so far (\<open>w\<close>).
\<close>

datatype action = Next | Prev | GoTo int | Fetch "int option"

fun act :: "paginated_state \<Rightarrow> action \<Rightarrow> paginated_state \<Rightarrow> paginated_state" where
  "act r Next w = (if page r < totalPages r then w\<lparr>page := page w + 1\<rparr> else w)"
| "act r Prev w = (if page r > 1 then w\<lparr>page := page w - 1\<rparr> else w)"
| "act r (GoTo pageNum) w =
     (if pageNum \<ge> 1 \<and> pageNum \<le> totalPages r then w\<lparr>page := pageNum\<rparr> else w)"
| "act r (Fetch pageNum) w =
     w\<lparr>loading := True, error := Null,
       calls := calls w @ [\<lparr> callee = apiFunction r,
                               arg_page = (case pageNum of None \<Rightarrow> page r | Some n \<Rightarrow> n),
                               arg_limit = pageSize r \<rparr>],
       pending := pending w + 1\<rparr>"

text \<open>
  A tick is what happens between two renders. \<open>Handler k as\<close> calls the actions
  \<open>as\<close> of the render \<open>k\<close> renders back (0 is the latest; beyond the first render
  it is the first). A run keeps the latest state and the states of the renders
  before it, latest first.
\<close>

datatype tick =
    Handler nat "action list"
  | Settled settled
  | Rendered nat int

fun step_tick ::
  "tick \<Rightarrow> paginated_state \<times> paginated_state list \<Rightarrow> paginated_state \<times> paginated_state list" where
  "step_tick (Handler k as) (s, earlier) =
     (run_effect s (foldl (\<lambda>w a. act ((s # earlier) ! min k (length earlier)) a w) s as),
      s # earlier)"
| "step_tick (Settled outcome) (s, earlier) = (step (Settle outcome) s, s # earlier)"
| "step_tick (Rendered f psize) (s, earlier) = (step (Rerender f psize) s, s # earlier)"

definition run_ticks :: "nat \<Rightarrow> int \<Rightarrow> int \<Rightarrow> tick list \<Rightarrow> paginated_state" where
  "run_ticks f initialPage psize ts =
     fst (foldl (\<lambda>h t. step_tick t h) (mount (usePaginatedApi f initialPage psize), []) ts)"

text \<open>
  An event of \<open>run\<close> as a tick: its handler calls the one action, of the latest
  render.
\<close>

fun tick_of :: "event \<Rightarrow> tick" where
  "tick_of NextPage = Handler 0 [Next]"
| "tick_of PrevPage = Handler 0 [Prev]"
| "tick_of (GoToPage n) = Handler 0 [GoTo n]"
| "tick_of (Refetch n) = Handler 0 [Fetch n]"
| "tick_of (Settle outcome) = Settled outcome"
| "tick_of (Rerender f psize) = Rendered f psize"

section \<open>ApiService.js behind the pipeline\<close>



section \<open>Auxiliary definitions for the properties\<close>






text \<open>The calls that the \<^verbatim>\<open>refetch\<close> actions of a handler issue, in order.\<close>

fun fetches :: "paginated_state \<Rightarrow> action list \<Rightarrow> call list" where
  "fetches r [] = []"
| "fetches r (Fetch pageNum # as) =
     \<lparr> callee = apiFunction r, arg_page = (case pageNum of None \<Rightarrow> page r | Some n \<Rightarrow> n),
       arg_limit = pageSize r \<rparr> # fetches r as"
| "fetches r (a # as) = fetches r as"


fun is_Str :: "jsval \<Rightarrow> bool" where
  "is_Str (Str s) = True"
| "is_Str v = False"

subsection \<open>Example values\<close>

definition logged_in :: browser where
  "logged_in =
     \<lparr> localStorage = [''token'' \<mapsto> ''abc'', ''user'' \<mapsto> ''{}''], navigations = [], console = [] \<rparr>"

definition logged_out :: browser where
  "logged_out = \<lparr> localStorage = Map.empty, navigations = [], console = [] \<rparr>"

text \<open>The error of a call that the server answered with status \<open>st\<close> and body \<open>b\<close>.\<close>

definition failed_with :: "int \<Rightarrow> jsval \<Rightarrow> error" where
  "failed_with st b =
     \<lparr> response = Some \<lparr> status = st, body = b \<rparr>, request = True,
       message = Str ''Request failed'' \<rparr>"

text \<open>A page of results from a backend with \<open>n\<close> pages.\<close>

definition page_of :: "int \<Rightarrow> jsval" where
  "page_of n = Obj [(''data'', Arr [Num 1]), (''totalPages'', Num n)]"

text \<open>The user \<^verbatim>\<open>{id: 1}\<close>, its JSON text, and a serialiser that knows this one value.\<close>

definition user1 :: jsval where
  "user1 = Obj [(''id'', Num 1)]"

definition user1_json :: string where
  "user1_json = ''{'' @ [CHR 0x22] @ ''id'' @ [CHR 0x22] @ '':1}''"

definition stringify1 :: "jsval \<Rightarrow> jsval" where
  "stringify1 v = (if v = user1 then Str user1_json else Undefined)"

section \<open>Properties of the interceptors\<close>

text \<open>
  C1. A failure whose response has status 401, whatever its body: afterwards the
  session is empty (neither \<^verbatim>\<open>token\<close> nor \<^verbatim>\<open>user\<close> is stored, and nothing else in
  the store has changed), exactly one navigation, to \<^verbatim>\<open>/login\<close>, has been added,
  and the promise rejects with the very error the handler was given.
\<close>

theorem unauthorized_clears_session:
  "response err = Some r \<Longrightarrow> status r = 401 \<Longrightarrow>
   fst (response_rejected b err)
     = b\<lparr>localStorage := (localStorage b)(''token'' := None, ''user'' := None),
         navigations := navigations b @ [''/login'']\<rparr>
   \<and> getItem ''token'' (fst (response_rejected b err)) = None
   \<and> getItem ''user'' (fst (response_rejected b err)) = None
   \<and> \<not> isAuthenticated (fst (response_rejected b err))
   \<and> snd (response_rejected b err) = Inl err"
  by (simp add: response_rejected_def set_location_href_def getItem_def removeItem_def
      isAuthenticated_def)

theorem unauthorized_clears_session_witness:
  "response (failed_with 401 Null) = Some \<lparr> status = 401, body = Null \<rparr>
   \<and> isAuthenticated logged_in
   \<and> \<not> isAuthenticated (fst (response_rejected logged_in (failed_with 401 Null)))
   \<and> navigations (fst (response_rejected logged_in (failed_with 401 Null))) = [''/login'']
   \<and> snd (response_rejected logged_in (failed_with 401 Null)) = Inl (failed_with 401 Null)"
  using unauthorized_clears_session
    [of "failed_with 401 Null" "\<lparr> status = 401, body = Null \<rparr>" logged_in]
  by (simp add: failed_with_def logged_in_def isAuthenticated_def getItem_def)

text \<open>
  C2. The request interceptor. A session exists when \<^verbatim>\<open>isAuthenticated\<close> says so:
  a token is stored and is not the empty string, which is the interceptor's own test
  \<^verbatim>\<open>if (token)\<close>. Then the descriptor is returned with its \<^verbatim>\<open>Authorization\<close>
  header set to \<^verbatim>\<open>Bearer \<close> followed by the token, and nothing else changed. With
  no session the descriptor is returned as it came. The handler has no failing
  branch: it is a total function to descriptors.
\<close>

theorem request_attaches_bearer:
  "(isAuthenticated b \<longrightarrow>
      (\<exists>token. getItem ''token'' b = Some token
         \<and> request_fulfilled b cfg
             = cfg\<lparr>headers := (headers cfg)(''Authorization'' \<mapsto> ''Bearer '' @ token)\<rparr>
         \<and> headers (request_fulfilled b cfg) ''Authorization'' = Some (''Bearer '' @ token)))
   \<and> (\<not> isAuthenticated b \<longrightarrow> request_fulfilled b cfg = cfg)"
  by (auto simp add: request_fulfilled_def isAuthenticated_def split: option.splits)

theorem request_attaches_bearer_witness:
  "isAuthenticated logged_in
   \<and> headers (request_fulfilled logged_in \<lparr> headers = [''Content-Type'' \<mapsto> ''application/json''] \<rparr>)
       ''Authorization'' = Some ''Bearer abc''
   \<and> \<not> isAuthenticated logged_out
   \<and> request_fulfilled logged_out \<lparr> headers = [''Content-Type'' \<mapsto> ''application/json''] \<rparr>
       = \<lparr> headers = [''Content-Type'' \<mapsto> ''application/json''] \<rparr>"
  using request_attaches_bearer
      [of logged_in "\<lparr> headers = [''Content-Type'' \<mapsto> ''application/json''] \<rparr>"]
    request_attaches_bearer
      [of logged_out "\<lparr> headers = [''Content-Type'' \<mapsto> ''application/json''] \<rparr>"]
  by (simp add: logged_in_def logged_out_def isAuthenticated_def getItem_def)


lemma other_status_rejects:
  "response err = Some r \<Longrightarrow> status r \<noteq> 401 \<Longrightarrow> \<not> nullish (body r) \<Longrightarrow>
   snd (response_rejected b err) = Inl err"
  by (cases "body r") (simp_all add: response_rejected_def nullish_def)


text \<open>
  C8. A 403 whose body is \<^verbatim>\<open>null\<close>: the handler reads \<^verbatim>\<open>data.message\<close> for the
  log line before it reaches \<^verbatim>\<open>Promise.reject(error)\<close>; the read throws, so the
  promise rejects with the TypeError and not with the original failure. The browser
  state, the session included, is unchanged.
\<close>

theorem forbidden_null_body_throws:
  "snd (response_rejected logged_in (failed_with 403 Null)) = Inl (TypeError Null ''message'')
   \<and> TypeError Null ''message'' \<noteq> failed_with 403 Null
   \<and> fst (response_rejected logged_in (failed_with 403 Null)) = logged_in"
  by (simp add: response_rejected_def failed_with_def TypeError_def)

section \<open>Properties of the session\<close>

text \<open>
  C9. A response that carries a token: reading \<^verbatim>\<open>response.data.token\<close> gives a
  truthy value (the test \<^verbatim>\<open>if (response.data.token)\<close>). Afterwards the store
  holds that token under \<^verbatim>\<open>token\<close> and the serialised user of the same response
  under \<^verbatim>\<open>user\<close>, both written and nothing else changed, and \<^verbatim>\<open>login\<close> resolves
  with the whole body. A token that is a string is stored as it is
  (\<open>to_string (Str s) = s\<close>).
\<close>

theorem login_stores_session:
  "get_prop (body r) ''token'' = Inr token \<Longrightarrow> truthy token \<Longrightarrow>
   fst (login JSON_stringify b (Inr r))
     = b\<lparr>localStorage := (localStorage b)
           (''token'' \<mapsto> to_string token,
            ''user'' \<mapsto> to_string (JSON_stringify (get_prop_opt (body r) ''user'')))\<rparr>
   \<and> getItem ''token'' (fst (login JSON_stringify b (Inr r))) = Some (to_string token)
   \<and> getItem ''user'' (fst (login JSON_stringify b (Inr r)))
       = Some (to_string (JSON_stringify (get_prop_opt (body r) ''user'')))
   \<and> snd (login JSON_stringify b (Inr r)) = Inr (body r)"
  by (cases "body r") (auto simp add: login_def setItem_def getItem_def)

theorem login_stores_session_witness:
  "get_prop (Obj [(''token'', Str ''abc''), (''user'', user1)]) ''token'' = Inr (Str ''abc'')
   \<and> truthy (Str ''abc'')
   \<and> getItem ''token''
        (fst (login stringify1 logged_out
               (Inr \<lparr> status = 200, body = Obj [(''token'', Str ''abc''), (''user'', user1)] \<rparr>)))
       = Some ''abc''
   \<and> getItem ''user''
        (fst (login stringify1 logged_out
               (Inr \<lparr> status = 200, body = Obj [(''token'', Str ''abc''), (''user'', user1)] \<rparr>)))
       = Some user1_json
   \<and> snd (login stringify1 logged_out
             (Inr \<lparr> status = 200, body = Obj [(''token'', Str ''abc''), (''user'', user1)] \<rparr>))
       = Inr (Obj [(''token'', Str ''abc''), (''user'', user1)])"
  using login_stores_session
    [of "\<lparr> status = 200, body = Obj [(''token'', Str ''abc''), (''user'', user1)] \<rparr>"
        "Str ''abc''" stringify1 logged_out]
  by (simp add: stringify1_def getItem_def)




text \<open>
  The other paths of \<^verbatim>\<open>login\<close> do not write either: a body that is \<^verbatim>\<open>null\<close> has
  no properties to read, and a rejected post is not caught.
\<close>

lemma login_null_body:
  "nullish (body r) \<Longrightarrow>
   login JSON_stringify b (Inr r) = (b, Inl (TypeError (body r) ''token''))"
  by (auto simp add: login_def nullish_def)

lemma login_post_rejected: "login JSON_stringify b (Inl err) = (b, Inl err)"
  by (simp add: login_def)

lemma logout_idempotent: "logout (logout b) = logout b \<and> \<not> isAuthenticated (logout b)"
  by (simp add: logout_def removeItem_def isAuthenticated_def getItem_def)

section \<open>Properties of useApi\<close>

text \<open>Every rejection value but \<^verbatim>\<open>null\<close> and \<^verbatim>\<open>undefined\<close> has a readable \<^verbatim>\<open>response\<close>.\<close>

lemma thrown_response_message_cases:
  "nullish_thrown err \<or> (\<exists>m. thrown_response_message err = Inr m)"
proof (cases err)
  case (Err e)
  then show ?thesis by (simp add: thrown_response_message_def)
next
  case (Val v)
  then show ?thesis
    by (cases v) (simp_all add: thrown_response_message_def nullish_thrown_def nullish_def)
qed

text \<open>
  C3, as amended. \<^verbatim>\<open>execute\<close> of the single-fetch hook. Whatever the state before
  the call, at the \<^verbatim>\<open>await\<close> the hook is loading, with the error cleared and the
  data kept. When the operation resolves with \<open>x\<close> the state ends with data \<open>x\<close>,
  no error and not loading, and \<open>x\<close> is returned. When it rejects with \<open>err\<close>, and
  \<open>err\<close> is not \<^verbatim>\<open>null\<close> or \<^verbatim>\<open>undefined\<close> (exactly then
  \<^verbatim>\<open>err.response?.data?.message\<close> can be read, with value \<open>m\<close>), the data is the
  data from before the call, the hook is not loading, the error is the first truthy
  one of the server's message \<open>m\<close>, the rejection's own message (\<^verbatim>\<open>err.message\<close>) and
  the literal \<^verbatim>\<open>An error occurred\<close>, and \<open>err\<close> is thrown again. From an idle
  hook, loading goes false, true, false.
\<close>

theorem execute_settles:
  "loading (execute_begin s) \<and> error (execute_begin s) = Null \<and> data (execute_begin s) = data s
   \<and> execute (Resolved x) s = (\<lparr> data = x, loading = False, error = Null \<rparr>, Inr x)
   \<and> (thrown_response_message err = Inr m \<longrightarrow>
        execute (Rejected err) s
          = (\<lparr> data = data s, loading = False,
               error = (if truthy m then m
                        else if truthy (thrown_message err) then thrown_message err
                        else Str ''An error occurred'') \<rparr>,
             Inl err))
   \<and> (nullish_thrown err \<or> (\<exists>m'. thrown_response_message err = Inr m'))"
  using thrown_response_message_cases [of err]
  by (simp add: execute_def execute_begin_def execute_settle_def errorMessage_def js_or_def)

theorem execute_settles_witness:
  "map loading [useApi False, execute_begin (useApi False),
                fst (execute (Resolved (Num 7)) (useApi False))] = [False, True, False]
   \<and> execute (Rejected (Err \<lparr> response = None, request = False, message = Str ''boom'' \<rparr>))
        \<lparr> data = Num 7, loading = False, error = Null \<rparr>
       = (\<lparr> data = Num 7, loading = False, error = Str ''boom'' \<rparr>,
          Inl (Err \<lparr> response = None, request = False, message = Str ''boom'' \<rparr>))
   \<and> error (fst (execute (Rejected (Err (failed_with 500 (Obj [(''message'', Str ''down'')]))))
                   (useApi False)))
       = Str ''down''
   \<and> error (fst (execute (Rejected (Val (Str ''thrown text''))) (useApi False)))
       = Str ''An error occurred''"
  using execute_settles [of "useApi False" "Num 7"]
    execute_settles [of "\<lparr> data = Num 7, loading = False, error = Null \<rparr>" _
       "Err \<lparr> response = None, request = False, message = Str ''boom'' \<rparr>" Undefined]
    execute_settles [of "useApi False" _ "Err (failed_with 500 (Obj [(''message'', Str ''down'')]))"
       "Str ''down''"]
    execute_settles [of "useApi False" _ "Val (Str ''thrown text'')" Undefined]
  by (simp add: useApi_def thrown_response_message_def thrown_message_def response_message_def
      failed_with_def)

text \<open>
  C3 as stated fails for an operation that rejects with \<^verbatim>\<open>undefined\<close>: the
  \<^verbatim>\<open>catch\<close> branch throws on \<^verbatim>\<open>err.response\<close> before \<^verbatim>\<open>setError\<close>, so the error
  stays absent (no fallback literal), and a TypeError is raised.
\<close>

theorem execute_rejected_with_undefined:
  "execute (Rejected (Val Undefined)) \<lparr> data = Num 7, loading = False, error = Null \<rparr>
     = (\<lparr> data = Num 7, loading = False, error = Null \<rparr>,
        Inl (Err (TypeError Undefined ''response'')))"
  by (simp add: execute_def execute_begin_def execute_settle_def errorMessage_def
      thrown_response_message_def)

text \<open>
  C4, as amended. For a bound operation that rejects with \<open>err\<close>, not \<^verbatim>\<open>null\<close> or
  \<^verbatim>\<open>undefined\<close>, and with \<open>m\<close> the server's message \<^verbatim>\<open>err.response?.data?.message\<close>:
  both hooks set their \<^verbatim>\<open>error\<close> field to a truthy value, the single-fetch hook
  to the first truthy one of \<open>m\<close>, \<^verbatim>\<open>err.message\<close> and \<^verbatim>\<open>An error occurred\<close>, the
  paginated hook to \<open>m\<close> or else \<^verbatim>\<open>Failed to fetch data\<close>. The field is a string
  when the messages it is chosen from are strings or falsy. The single-fetch hook
  throws the original failure again to the caller of \<^verbatim>\<open>execute\<close>. The paginated
  hook does not: the promise of \<^verbatim>\<open>fetchData\<close> (also exported as \<^verbatim>\<open>refetch\<close>)
  resolves with \<^verbatim>\<open>undefined\<close>.
\<close>

theorem failures_reported:
  "(thrown_response_message err = Inr m \<longrightarrow>
      error (fst (execute (Rejected err) s))
        = js_or (js_or m (thrown_message err)) (Str ''An error occurred'')
      \<and> truthy (error (fst (execute (Rejected err) s)))
      \<and> ((is_Str m \<or> \<not> truthy m) \<and> (is_Str (thrown_message err) \<or> \<not> truthy (thrown_message err))
           \<longrightarrow> is_Str (error (fst (execute (Rejected err) s))))
      \<and> snd (execute (Rejected err) s) = Inl err
      \<and> error (fst (fetchData_settle (Rejected err) p)) = js_or m (Str ''Failed to fetch data'')
      \<and> truthy (error (fst (fetchData_settle (Rejected err) p)))
      \<and> (is_Str m \<or> \<not> truthy m \<longrightarrow> is_Str (error (fst (fetchData_settle (Rejected err) p))))
      \<and> snd (fetchData_settle (Rejected err) p) = Inr Undefined)
   \<and> (nullish_thrown err \<or> (\<exists>m'. thrown_response_message err = Inr m'))"
  using thrown_response_message_cases [of err]
  by (auto simp add: execute_def execute_begin_def execute_settle_def fetchData_settle_def
      fetchData_catch_def errorMessage_def js_or_def)

theorem failures_reported_witness:
  "error (fst (execute (Rejected (Err (failed_with 500 (Obj [(''message'', Str ''down'')]))))
                (useApi True)))
     = Str ''down''
   \<and> snd (execute (Rejected (Err (failed_with 500 (Obj [(''message'', Str ''down'')]))))
            (useApi True))
     = Inl (Err (failed_with 500 (Obj [(''message'', Str ''down'')])))
   \<and> error (fst (fetchData_settle (Rejected (Err (failed_with 500 Null)))
                   (mount (usePaginatedApi 0 1 10))))
     = Str ''Failed to fetch data''
   \<and> snd (fetchData_settle (Rejected (Err (failed_with 500 Null))) (mount (usePaginatedApi 0 1 10)))
     = Inr Undefined"
  using failures_reported
    [of "Err (failed_with 500 (Obj [(''message'', Str ''down'')]))" "Str ''down''" "useApi True"]
    failures_reported
    [of "Err (failed_with 500 Null)" Undefined _ "mount (usePaginatedApi 0 1 10)"]
  by (simp add: thrown_response_message_def thrown_message_def response_message_def failed_with_def
      js_or_def)

text \<open>
  C4 as stated fails three ways. For the paginated hook, a fetch that the server
  fails with status 500 sets the error field and the promise of \<^verbatim>\<open>fetchData\<close>
  resolves instead of rejecting with the failure. A server message that is the
  number 42 is stored as the number, not as a string. And an operation that rejects
  with \<^verbatim>\<open>undefined\<close> or \<^verbatim>\<open>null\<close> sets no error in either hook: the \<^verbatim>\<open>catch\<close>
  branch throws a TypeError, which is what the caller receives.
\<close>

theorem failure_not_raised_nor_text:
  "snd (fetchData_settle (Rejected (Err (failed_with 500 (Obj [(''message'', Str ''down'')]))))
         (mount (usePaginatedApi 0 1 10))) = Inr Undefined
   \<and> error (fst (fetchData_settle (Rejected (Err (failed_with 500 (Obj [(''message'', Str ''down'')]))))
         (mount (usePaginatedApi 0 1 10)))) = Str ''down''
   \<and> error (fst (execute (Rejected (Err (failed_with 500 (Obj [(''message'', Num 42)]))))
         (useApi False))) = Num 42
   \<and> \<not> is_Str (Num 42)
   \<and> execute (Rejected (Val Undefined)) (useApi False)
       = (\<lparr> data = Null, loading = False, error = Null \<rparr>,
          Inl (Err (TypeError Undefined ''response'')))
   \<and> fetchData_settle (Rejected (Val Null)) (mount (usePaginatedApi 0 1 10))
       = ((mount (usePaginatedApi 0 1 10))\<lparr>loading := False, pending := 0, completed := 1\<rparr>,
          Inl (Err (TypeError Null ''response'')))"
  by (simp add: fetchData_settle_def fetchData_catch_def failed_with_def response_message_def
      thrown_response_message_def thrown_message_def js_or_def execute_def execute_begin_def
      execute_settle_def errorMessage_def useApi_def mount_def usePaginatedApi_def
      fetchData_begin_def)

section \<open>Properties of usePaginatedApi\<close>


lemma fetchData_try_frame:
  "page (fst (fetchData_try result s)) = page s"
  "apiFunction (fst (fetchData_try result s)) = apiFunction s"
  "pageSize (fst (fetchData_try result s)) = pageSize s"
  "calls (fst (fetchData_try result s)) = calls s"
  by (cases result; simp add: fetchData_try_def Let_def)+


lemma fetchData_catch_frame:
  "fetchData_catch err s = Inr s' \<Longrightarrow>
   page s' = page s \<and> totalPages s' = totalPages s \<and> apiFunction s' = apiFunction s
   \<and> pageSize s' = pageSize s \<and> calls s' = calls s"
  by (auto simp add: fetchData_catch_def split: sum.splits)

lemma fetchData_settle_frame:
  "page (fst (fetchData_settle outcome s)) = page s"
  "apiFunction (fst (fetchData_settle outcome s)) = apiFunction s"
  "pageSize (fst (fetchData_settle outcome s)) = pageSize s"
  "calls (fst (fetchData_settle outcome s)) = calls s"
  by (cases outcome;
      auto simp add: fetchData_settle_def fetchData_try_frame
        split: prod.splits option.splits sum.splits dest: fetchData_catch_frame
        dest!: arg_cong [where f = fst])+



















text \<open>The definitions that evaluate a run on concrete events.\<close>

lemmas run_simps = run_def step_def run_effect_def deps_def mount_def usePaginatedApi_def
  fetchData_begin_def fetchData_settle_def fetchData_try_def fetchData_catch_def page_of_def
  js_or_def as_number_def nextPage_def prevPage_def goToPage_def refetch_def run_ticks_def
  thrown_response_message_def response_message_def failed_with_def



text \<open>
  Nor does the hook move \<^verbatim>\<open>page\<close> when a later result reports fewer pages, or when
  the first fetch of an initial page above 1 fails: this is why the amended statement
  fixes the number of pages, and speaks of a result that was read.
\<close>

lemma page_shrinks_under:
  "page (run 0 1 10 [Settle (Resolved (page_of 3)), GoToPage 3, Settle (Resolved (page_of 1))]) = 3
   \<and> totalPages (run 0 1 10 [Settle (Resolved (page_of 3)), GoToPage 3, Settle (Resolved (page_of 1))])
       = 1"
  by (simp add: run_simps)

lemma page_above_unknown_total:
  "page (run 0 2 10 [Settle (Rejected (Err (failed_with 500 Null)))]) = 2
   \<and> totalPages (run 0 2 10 [Settle (Rejected (Err (failed_with 500 Null)))]) = 0
   \<and> completed (run 0 2 10 [Settle (Rejected (Err (failed_with 500 Null)))]) = 1"
  by (simp add: run_simps)

text \<open>
  The runs of \<open>run\<close> are the runs of \<open>run_ticks\<close> in which every handler calls one
  action, of the latest render.
\<close>

lemma step_as_tick: "step_tick (tick_of ev) (s, earlier) = (step ev s, s # earlier)"
  by (cases ev)
     (simp_all add: step_def nextPage_def prevPage_def goToPage_def refetch_def fetchData_begin_def)

lemma run_as_ticks: "run f initialPage psize evs = run_ticks f initialPage psize (map tick_of evs)"
proof -
  have "foldl (\<lambda>s ev. step ev s) s evs
      = fst (foldl (\<lambda>h t. step_tick t h) (s, earlier) (map tick_of evs))" for s earlier
    by (induction evs arbitrary: s earlier) (simp_all add: step_as_tick)
  then show ?thesis by (simp add: run_def run_ticks_def)
qed



text \<open>A settlement changes no dependency of the effect, and issues no call.\<close>

lemma calls_handle_Settle: "calls (handle (Settle outcome) s) = calls s"
  by (simp add: fetchData_settle_frame)

lemma deps_handle_Settle: "deps (handle (Settle outcome) s) = deps s"
  by (simp add: deps_def fetchData_settle_frame)

lemma step_Settle: "step (Settle outcome) s = handle (Settle outcome) s"
  by (simp add: step_def run_effect_def deps_handle_Settle del: handle.simps)

text \<open>
  C7, as amended. The calls of the bound operation are issued by: the mount (one
  call, for the initial page); a change of \<^verbatim>\<open>page\<close> by a navigation action (exactly
  one call, for the new page); \<^verbatim>\<open>refetch\<close> (one call, for the current page or for
  the page passed to it); and a render with another \<^verbatim>\<open>apiFunction\<close> or another
  \<^verbatim>\<open>pageSize\<close> (one call, for the current page). Nothing else issues a call: not a
  navigation action that leaves the page as it is, not a settlement, not a render
  with the same arguments.
\<close>

theorem fetch_triggers:
  "calls (mount s) = calls s @ [\<lparr> callee = apiFunction s, arg_page = page s, arg_limit = pageSize s \<rparr>]
   \<and> calls (step ev s) = calls s @
       (case ev of
          Refetch n \<Rightarrow>
            [\<lparr> callee = apiFunction s, arg_page = (case n of None \<Rightarrow> page s | Some k \<Rightarrow> k),
               arg_limit = pageSize s \<rparr>]
        | Rerender f psize \<Rightarrow>
            if f = apiFunction s \<and> psize = pageSize s then []
            else [\<lparr> callee = f, arg_page = page s, arg_limit = psize \<rparr>]
        | Settle outcome \<Rightarrow> []
        | _ \<Rightarrow>
            if page (step ev s) = page s then []
            else [\<lparr> callee = apiFunction s, arg_page = page (step ev s), arg_limit = pageSize s \<rparr>])"
proof -
  have m: "calls (mount s)
    = calls s @ [\<lparr> callee = apiFunction s, arg_page = page s, arg_limit = pageSize s \<rparr>]"
    by (simp add: mount_def fetchData_begin_def)
  have e: "calls (step ev s) = calls s @
       (case ev of
          Refetch n \<Rightarrow>
            [\<lparr> callee = apiFunction s, arg_page = (case n of None \<Rightarrow> page s | Some k \<Rightarrow> k),
               arg_limit = pageSize s \<rparr>]
        | Rerender f psize \<Rightarrow>
            if f = apiFunction s \<and> psize = pageSize s then []
            else [\<lparr> callee = f, arg_page = page s, arg_limit = psize \<rparr>]
        | Settle outcome \<Rightarrow> []
        | _ \<Rightarrow>
            if page (step ev s) = page s then []
            else [\<lparr> callee = apiFunction s, arg_page = page (step ev s), arg_limit = pageSize s \<rparr>])"
  proof (cases ev)
    case NextPage
    then show ?thesis
      by (simp add: step_def run_effect_def deps_def nextPage_def fetchData_begin_def)
  next
    case PrevPage
    then show ?thesis
      by (simp add: step_def run_effect_def deps_def prevPage_def fetchData_begin_def)
  next
    case (GoToPage n)
    then show ?thesis
      by (simp add: step_def run_effect_def deps_def goToPage_def fetchData_begin_def)
  next
    case (Refetch n)
    then show ?thesis
      by (simp add: step_def run_effect_def deps_def refetch_def fetchData_begin_def)
  next
    case (Settle outcome)
    then show ?thesis
      by (simp add: step_Settle calls_handle_Settle del: handle.simps)
  next
    case (Rerender f psize)
    then show ?thesis
      by (auto simp add: step_def run_effect_def deps_def fetchData_begin_def)
  qed
  from m e show ?thesis by (rule conjI)
qed

theorem fetch_triggers_witness:
  "calls (step (Refetch None) (run 0 1 10 [Settle (Resolved (page_of 3)), GoToPage 2]))
     = [\<lparr> callee = 0, arg_page = 1, arg_limit = 10 \<rparr>, \<lparr> callee = 0, arg_page = 2, arg_limit = 10 \<rparr>,
        \<lparr> callee = 0, arg_page = 2, arg_limit = 10 \<rparr>]
   \<and> calls (step (Settle (Resolved (page_of 3))) (run 0 1 10 []))
     = [\<lparr> callee = 0, arg_page = 1, arg_limit = 10 \<rparr>]"
  using fetch_triggers [of "run 0 1 10 [Settle (Resolved (page_of 3)), GoToPage 2]" "Refetch None"]
    fetch_triggers [of "run 0 1 10 []" "Settle (Resolved (page_of 3))"]
  by (simp add: run_simps)

text \<open>
  C7 as stated fails: the mount issues a call although the page has not changed and
  \<^verbatim>\<open>refetch\<close> was not called, and so does a render with another \<^verbatim>\<open>apiFunction\<close>.
\<close>

theorem fetch_without_page_change:
  "calls (usePaginatedApi 0 1 10) = []
   \<and> page (mount (usePaginatedApi 0 1 10)) = page (usePaginatedApi 0 1 10)
   \<and> calls (mount (usePaginatedApi 0 1 10)) = [\<lparr> callee = 0, arg_page = 1, arg_limit = 10 \<rparr>]
   \<and> page (step (Rerender 1 10) (run 0 1 10 [])) = page (run 0 1 10 [])
   \<and> calls (step (Rerender 1 10) (run 0 1 10 []))
       = calls (run 0 1 10 []) @ [\<lparr> callee = 1, arg_page = 1, arg_limit = 10 \<rparr>]"
  by (simp add: run_simps)

text \<open>
  A handler that calls several actions issues one call for each \<^verbatim>\<open>refetch\<close> in it,
  with the arguments of the render whose \<^verbatim>\<open>refetch\<close> it is, and after the next
  render one more call, for the new page, when the page has changed.
\<close>

lemma foldl_act_calls:
  "calls (foldl (\<lambda>w a. act r a w) w as) = calls w @ fetches r as
   \<and> apiFunction (foldl (\<lambda>w a. act r a w) w as) = apiFunction w
   \<and> pageSize (foldl (\<lambda>w a. act r a w) w as) = pageSize w"
proof (induction as arbitrary: w)
  case Nil
  then show ?case by simp
next
  case (Cons a as)
  show ?case by (cases a) (simp_all add: Cons.IH)
qed

lemma handler_fetches:
  "calls (fst (step_tick (Handler k as) (s, earlier)))
     = calls s @ fetches ((s # earlier) ! min k (length earlier)) as @
       (if page (fst (step_tick (Handler k as) (s, earlier))) = page s then []
        else [\<lparr> callee = apiFunction s,
                arg_page = page (fst (step_tick (Handler k as) (s, earlier))),
                arg_limit = pageSize s \<rparr>])"
  using foldl_act_calls [of "(s # earlier) ! min k (length earlier)" s as]
  by (simp add: run_effect_def deps_def fetchData_begin_def)

end
